theory Spec2Isabelle
  imports Complex_Main "HOL-Library.Sublist" "HOL-Library.AList"
begin

section \<open>JavaScript values as the program observes them\<close>

text \<open>
  The values that travel through the handlers are JSON-like: the result of
  \<^verbatim>\<open>JSON.parse\<close>, of \<^verbatim>\<open>res.json()\<close>, of \<^verbatim>\<open>express.json()\<close>, and the service
  object of a Zeroconf \<^verbatim>\<open>resolved\<close> event. \<^verbatim>\<open>undefined\<close> is \<open>None\<close> of
  \<open>json option\<close>. A number is kept as the two things the code observes of it:
  whether it is truthy (neither 0 nor NaN) and the text \<^verbatim>\<open>String\<close> gives it.
  An object is the list of its own properties, each key once. Strings are lists
  of code units below 256.
\<close>

datatype json =
    JNull
  | JBool bool
  | JNum bool string
  | JStr string
  | JArr "json list"
  | JObj "(string \<times> json) list"

type_synonym jsval = "json option"

text \<open>\<^verbatim>\<open>x?.k\<close> for a key \<open>k\<close> that no prototype defines: \<^verbatim>\<open>undefined\<close> on
  \<^verbatim>\<open>undefined\<close>, \<^verbatim>\<open>null\<close>, primitives and arrays, the own property on an object.\<close>

fun get_prop :: "string \<Rightarrow> jsval \<Rightarrow> jsval" where
  "get_prop k (Some (JObj kvs)) = map_of kvs k"
| "get_prop k _ = None"

text \<open>Truthiness, as \<^verbatim>\<open>!!x\<close>, \<^verbatim>\<open>x || y\<close> and \<^verbatim>\<open>if (x)\<close> use it.\<close>

fun truthy :: "jsval \<Rightarrow> bool" where
  "truthy None = False"
| "truthy (Some JNull) = False"
| "truthy (Some (JBool b)) = b"
| "truthy (Some (JNum nz _)) = nz"
| "truthy (Some (JStr s)) = (s \<noteq> [])"
| "truthy (Some (JArr _)) = True"
| "truthy (Some (JObj _)) = True"

text \<open>\<^verbatim>\<open>x || d\<close> for a defined \<open>d\<close>, and \<^verbatim>\<open>x ?? ""\<close>: both are defined values.\<close>

definition or_else :: "jsval \<Rightarrow> json \<Rightarrow> json" where
  "or_else x d = (case x of Some v \<Rightarrow> (if truthy x then v else d) | None \<Rightarrow> d)"

fun nullish_empty :: "jsval \<Rightarrow> json" where
  "nullish_empty None = JStr []"
| "nullish_empty (Some JNull) = JStr []"
| "nullish_empty (Some v) = v"

text \<open>\<^verbatim>\<open>Array.prototype.join\<close> with the default separator.\<close>

fun join :: "string list \<Rightarrow> string" where
  "join [] = []"
| "join [x] = x"
| "join (x # y # ys) = x @ '','' @ join (y # ys)"

text \<open>
  \<^verbatim>\<open>String(x)\<close> of a defined value, and \<^verbatim>\<open>${x}\<close> in a template; \<open>None\<close> when the
  conversion throws a \<^verbatim>\<open>TypeError\<close>. An array joins its elements, \<^verbatim>\<open>null\<close> elements
  giving the empty text. An object prints through \<^verbatim>\<open>Object.prototype.toString\<close>
  unless it has an own property \<^verbatim>\<open>toString\<close>: a JSON-like value is never callable,
  so the conversion skips it, and \<^verbatim>\<open>valueOf\<close> (its own, not callable either, or the
  inherited one, which returns the object) gives no primitive: it throws.
\<close>

fun js_String :: "json \<Rightarrow> string option" where
  "js_String JNull = Some ''null''"
| "js_String (JBool b) = Some (if b then ''true'' else ''false'')"
| "js_String (JNum nz txt) = Some txt"
| "js_String (JStr s) = Some s"
| "js_String (JArr xs) =
     map_option join (those (map (\<lambda>x. if x = JNull then Some [] else js_String x) xs))"
| "js_String (JObj kvs) =
     (if ''toString'' \<in> set (map fst kvs) then None else Some ''[object Object]'')"

text \<open>White space and line terminators of \<^verbatim>\<open>String.prototype.trim\<close> among the
  code units below 256: TAB, LF, VT, FF, CR, SP, NBSP.\<close>

definition is_ws :: "char \<Rightarrow> bool" where
  "is_ws c = (c \<in> set [CHR 0x09, CHR 0x0A, CHR 0x0B, CHR 0x0C, CHR 0x0D, CHR 0x20, CHR 0xA0])"

definition trim :: "string \<Rightarrow> string" where
  "trim s = rev (dropWhile is_ws (rev (dropWhile is_ws s)))"

text \<open>A string with no white space at either end.\<close>

definition trimmed :: "string \<Rightarrow> bool" where
  "trimmed t = (case t of [] \<Rightarrow> True | c # _ \<Rightarrow> \<not> is_ws c \<and> \<not> is_ws (last t))"

section \<open>Promises\<close>

text \<open>An awaited call either resolves with a value, rejects with an error (kept as
  its message), or never settles.\<close>

datatype 'a promise = Resolved 'a | Rejected string | Pending

text \<open>\<^verbatim>\<open>String(e.message || e)\<close> of a caught error: an \<^verbatim>\<open>Error\<close> with an empty
  message prints as its name.\<close>

definition err_text :: "string \<Rightarrow> string" where
  "err_text m = (if m \<noteq> [] then m else ''Error'')"

section \<open>The liveness probe\<close>

text \<open>What \<^verbatim>\<open>fetch\<close> resolves with: \<^verbatim>\<open>res.ok\<close> and the promise of \<^verbatim>\<open>res.json()\<close>.\<close>

record response =
  ok :: bool
  body :: "json promise"

text \<open>
  \<^verbatim>\<open>
  async function tryHealth(baseUrl) {
    const res = await fetch(`${baseUrl}/health`);
    if (!res.ok) return false;
    const data = await res.json().catch(() => null);
    return !!data?.ok;
  }
  \<close>
  The argument is what the \<^verbatim>\<open>fetch\<close> call settles to. The call passes no options:
  no signal, no timeout. Nothing catches a rejection of \<^verbatim>\<open>fetch\<close>; a rejection of
  \<^verbatim>\<open>res.json()\<close> becomes \<^verbatim>\<open>null\<close>.
\<close>

fun tryHealth :: "response promise \<Rightarrow> bool promise" where
  "tryHealth Pending = Pending"
| "tryHealth (Rejected e) = Rejected e"
| "tryHealth (Resolved res) =
     (if \<not> ok res then Resolved False
      else case body res of
          Pending \<Rightarrow> Pending
        | Rejected _ \<Rightarrow> Resolved (truthy (get_prop ''ok'' (Some JNull)))
        | Resolved data \<Rightarrow> Resolved (truthy (get_prop ''ok'' (Some data))))"

section \<open>The mobile client\<close>

subsection \<open>State, effects and the environment\<close>

text \<open>The calls and state changes a run leaves behind, in order.\<close>

datatype event =
    Fetch string
  | HealthReturned string bool
  | Stored string string
  | Deleted string
  | SetBaseUrl "string option"
  | Scan nat
  | Stop nat
  | Alert string string

text \<open>
  The component's \<^verbatim>\<open>useState\<close> cells that the connection logic touches, the
  contents of \<^verbatim>\<open>SecureStore\<close>, one flag per \<^verbatim>\<open>new Zeroconf()\<close> instance (is it
  scanning), and the pending six-second timers. A function component's handlers
  are closures of the render that created them: they see that render's \<^verbatim>\<open>baseUrl\<close>
  constant, whatever \<^verbatim>\<open>setBaseUrl\<close> does later. So each pending timer holds the
  \<^verbatim>\<open>baseUrl\<close> its callback closed over.
\<close>

record app =
  baseUrl :: "string option"
  status :: string
  err :: string
  qrOpen :: bool
  secure :: "(string \<times> string) list"
  zeroconfs :: "bool list"
  timers :: "string option list"
  trace :: "event list"

text \<open>What the outside world answers during one handler run: what the \<^verbatim>\<open>fetch\<close>
  settles to, whether each \<^verbatim>\<open>SecureStore\<close> call resolves and the message it
  rejects with, and the texts of the engine's \<^verbatim>\<open>TypeError\<close>s for a call of a
  non-function and for an object that has no primitive value.\<close>

record io =
  fetch_result :: "response promise"
  getItem_ok :: bool
  setItem_ok :: bool
  deleteItem_ok :: bool
  store_error :: string
  type_error :: string
  convert_error :: string

definition STORE_KEY :: string where
  "STORE_KEY = ''LAN_BASE_URL''"

definition DEFAULT_PORT :: json where
  "DEFAULT_PORT = JNum True ''4310''"

text \<open>The state of the first render: \<^verbatim>\<open>useState(null)\<close>,
  \<^verbatim>\<open>useState("Buscando server...")\<close>, over a given store.\<close>

definition initial :: "(string \<times> string) list \<Rightarrow> app" where
  "initial st = \<lparr>baseUrl = None, status = ''Buscando server...'', err = [], qrOpen = False,
     secure = st, zeroconfs = [], timers = [], trace = []\<rparr>"

definition emit :: "event \<Rightarrow> app \<Rightarrow> app" where
  "emit e s = s\<lparr>trace := trace s @ [e]\<rparr>"

definition setStatus :: "string \<Rightarrow> app \<Rightarrow> app" where
  "setStatus v s = s\<lparr>status := v\<rparr>"

definition setErr :: "string \<Rightarrow> app \<Rightarrow> app" where
  "setErr v s = s\<lparr>err := v\<rparr>"

definition setQrOpen :: "bool \<Rightarrow> app \<Rightarrow> app" where
  "setQrOpen v s = s\<lparr>qrOpen := v\<rparr>"

definition setBaseUrl :: "string option \<Rightarrow> app \<Rightarrow> app" where
  "setBaseUrl v s = emit (SetBaseUrl v) (s\<lparr>baseUrl := v\<rparr>)"

definition alert :: "string \<Rightarrow> string \<Rightarrow> app \<Rightarrow> app" where
  "alert t m s = emit (Alert t m) s"

text \<open>Truthiness of a string-or-null, as \<^verbatim>\<open>if (saved)\<close> and \<^verbatim>\<open>!baseUrl\<close> test it.\<close>

definition present :: "string option \<Rightarrow> bool" where
  "present v = (case v of None \<Rightarrow> False | Some t \<Rightarrow> t \<noteq> [])"

definition getItemAsync :: "io \<Rightarrow> string \<Rightarrow> app \<Rightarrow> string option promise" where
  "getItemAsync w k s = (if getItem_ok w then Resolved (map_of (secure s) k) else Rejected (store_error w))"

definition setItemAsync :: "io \<Rightarrow> string \<Rightarrow> string \<Rightarrow> app \<Rightarrow> unit promise \<times> app" where
  "setItemAsync w k v s =
     (if setItem_ok w then (Resolved (), emit (Stored k v) (s\<lparr>secure := AList.update k v (secure s)\<rparr>))
      else (Rejected (store_error w), s))"

definition deleteItemAsync :: "io \<Rightarrow> string \<Rightarrow> app \<Rightarrow> unit promise \<times> app" where
  "deleteItemAsync w k s =
     (if deleteItem_ok w then (Resolved (), emit (Deleted k) (s\<lparr>secure := AList.delete k (secure s)\<rparr>))
      else (Rejected (store_error w), s))"

subsection \<open>connectWithBaseUrl\<close>

text \<open>
  \<^verbatim>\<open>
  async function connectWithBaseUrl(url) {
    setStatus("Probando conexion...");
    const ok = await tryHealth(url);
    if (!ok) {
      setStatus("No se pudo conectar.");
      throw new Error("No responde /health (misma red? firewall?)");
    }
    await SecureStore.setItemAsync(STORE_KEY, url);
    setBaseUrl(url);
    setStatus("Conectado");
  }
  \<close>
  The function suspends at its two \<^verbatim>\<open>await\<close>s, and other handlers can run while
  it does: \<open>connect_begin\<close> is the part before \<^verbatim>\<open>await tryHealth(url)\<close>,
  \<open>connect_store\<close> the part that runs once the probe has returned \<open>h\<close>, up to
  \<^verbatim>\<open>await SecureStore.setItemAsync\<close>, and \<open>connect_finish\<close> the part after the write
  has resolved. The store performs a call when it is issued. \<open>connect_resume\<close> is
  the last two parts with nothing in between.
\<close>

definition connect_begin :: "string \<Rightarrow> app \<Rightarrow> app" where
  "connect_begin url s = emit (Fetch (url @ ''/health'')) (setStatus ''Probando conexion...'' s)"

definition connect_store :: "io \<Rightarrow> string \<Rightarrow> bool \<Rightarrow> app \<Rightarrow> unit promise \<times> app" where
  "connect_store w url h s =
     (let s1 = emit (HealthReturned url h) s in
      if \<not> h then
        (Rejected ''No responde /health (misma red? firewall?)'', setStatus ''No se pudo conectar.'' s1)
      else setItemAsync w STORE_KEY url s1)"

definition connect_finish :: "string \<Rightarrow> app \<Rightarrow> app" where
  "connect_finish url s = setStatus ''Conectado'' (setBaseUrl (Some url) s)"

definition connect_resume :: "io \<Rightarrow> string \<Rightarrow> bool \<Rightarrow> app \<Rightarrow> unit promise \<times> app" where
  "connect_resume w url h s =
     (case connect_store w url h s of
          (Rejected e, s2) \<Rightarrow> (Rejected e, s2)
        | (Pending, s2) \<Rightarrow> (Pending, s2)
        | (Resolved _, s2) \<Rightarrow> (Resolved (), connect_finish url s2))"

definition connectWithBaseUrl :: "io \<Rightarrow> string \<Rightarrow> app \<Rightarrow> unit promise \<times> app" where
  "connectWithBaseUrl w url s =
     (let s1 = connect_begin url s in
      case tryHealth (fetch_result w) of
          Pending \<Rightarrow> (Pending, s1)
        | Rejected e \<Rightarrow> (Rejected e, s1)
        | Resolved h \<Rightarrow> connect_resume w url h s1)"

subsection \<open>connectFromSaved\<close>

text \<open>
  \<^verbatim>\<open>
  async function connectFromSaved() {
    const saved = await SecureStore.getItemAsync(STORE_KEY);
    if (saved) {
      try { await connectWithBaseUrl(saved); return true; } catch { return false; }
    }
    return false;
  }
  \<close>
\<close>

definition connectFromSaved :: "io \<Rightarrow> app \<Rightarrow> bool promise \<times> app" where
  "connectFromSaved w s =
     (case getItemAsync w STORE_KEY s of
          Pending \<Rightarrow> (Pending, s)
        | Rejected e \<Rightarrow> (Rejected e, s)
        | Resolved saved \<Rightarrow>
            (case saved of
                 None \<Rightarrow> (Resolved False, s)
               | Some v \<Rightarrow>
                   (if present saved then
                      (case connectWithBaseUrl w v s of
                           (Resolved _, s1) \<Rightarrow> (Resolved True, s1)
                         | (Rejected _, s1) \<Rightarrow> (Resolved False, s1)
                         | (Pending, s1) \<Rightarrow> (Pending, s1))
                    else (Resolved False, s))))"

subsection \<open>startZeroconfDiscovery and its handlers\<close>

text \<open>
  \<^verbatim>\<open>
  function startZeroconfDiscovery() {
    const zeroconf = new Zeroconf();
    setStatus("Buscando por mDNS (Zeroconf)...");
    zeroconf.scan(SERVICE_TYPE, "tcp");
    zeroconf.on("resolved", async (service) => { ... });
    zeroconf.on("error", (e) => { ... });
    // si no resolvio en 6s, sugerimos QR
    setTimeout(() => {
      if (!baseUrl) setStatus("No se encontro por mDNS. Usa QR (fallback).");
    }, 6000);
    return () => { try { zeroconf.stop(); } catch {} };
  }
  \<close>
  \<open>bu\<close> is the \<^verbatim>\<open>baseUrl\<close> of the render whose closure is called; the timer's
  callback closes over the same constant. The result is the index of the new
  instance, which the two handlers are bound to.
\<close>

definition startZeroconfDiscovery :: "string option \<Rightarrow> app \<Rightarrow> nat \<times> app" where
  "startZeroconfDiscovery bu s =
     (let z = length (zeroconfs s);
          s1 = setStatus ''Buscando por mDNS (Zeroconf)...'' s;
          s2 = emit (Scan z) (s1\<lparr>zeroconfs := zeroconfs s1 @ [True]\<rparr>);
          s3 = s2\<lparr>timers := timers s2 @ [bu]\<rparr>
      in (z, s3))"

definition zeroconf_stop :: "nat \<Rightarrow> app \<Rightarrow> app" where
  "zeroconf_stop z s = emit (Stop z) (s\<lparr>zeroconfs := (zeroconfs s)[z := False]\<rparr>)"

text \<open>The test of \<^verbatim>\<open>find\<close>, the handler's only look at an address:
  \<^verbatim>\<open>typeof x === "string" && x.includes(".")\<close>.\<close>

fun has_dot :: "json \<Rightarrow> bool" where
  "has_dot (JStr x) = (CHR ''.'' \<in> set x)"
| "has_dot _ = False"

text \<open>
  \<^verbatim>\<open>
  zeroconf.on("resolved", async (service) => {
    try {
      const ip = service?.addresses?.find((x) => typeof x === "string" && x.includes("."));
      const port = service?.port || DEFAULT_PORT;
      if (!ip) return;
      const url = `http://${ip}:${port}`;
      await connectWithBaseUrl(url);
      zeroconf.stop();
    } catch (e) {
      // Si falla, seguimos buscando
      setErr(String(e.message || e));
    }
  });
  \<close>
  \<open>resolved_ip\<close> is the first line: \<open>Inr\<close> the value of \<open>ip\<close>, or \<open>Inl\<close> when
  \<^verbatim>\<open>addresses\<close> is neither absent nor an array, so that calling its \<^verbatim>\<open>find\<close>
  throws. The template throws when the port is an object with no text; the
  \<^verbatim>\<open>catch\<close> shows either error.
\<close>

fun resolved_ip :: "jsval \<Rightarrow> unit + jsval" where
  "resolved_ip None = Inr None"
| "resolved_ip (Some JNull) = Inr None"
| "resolved_ip (Some (JArr xs)) = Inr (find has_dot xs)"
| "resolved_ip (Some _) = Inl ()"

definition on_resolved :: "io \<Rightarrow> nat \<Rightarrow> jsval \<Rightarrow> app \<Rightarrow> unit promise \<times> app" where
  "on_resolved w z service s =
     (case resolved_ip (get_prop ''addresses'' service) of
          Inl _ \<Rightarrow> (Resolved (), setErr (err_text (type_error w)) s)
        | Inr ip \<Rightarrow>
            (let port = or_else (get_prop ''port'' service) DEFAULT_PORT in
             case ip of
                 None \<Rightarrow> (Resolved (), s)
               | Some a \<Rightarrow>
                   (if \<not> truthy ip then (Resolved (), s)
                    else
                      (case (js_String a, js_String port) of
                           (Some ip_text, Some port_text) \<Rightarrow>
                             (let url = ''http://'' @ ip_text @ '':'' @ port_text in
                              case connectWithBaseUrl w url s of
                                  (Resolved _, s1) \<Rightarrow> (Resolved (), zeroconf_stop z s1)
                                | (Rejected e, s1) \<Rightarrow> (Resolved (), setErr (err_text e) s1)
                                | (Pending, s1) \<Rightarrow> (Pending, s1))
                         | _ \<Rightarrow> (Resolved (), setErr (err_text (convert_error w)) s)))))"

text \<open>\<^verbatim>\<open>zeroconf.on("error", (e) => { setStatus("Zeroconf error (usa QR)");
  setErr(String(e?.message || e)); })\<close>, with the error given by its message.\<close>

definition on_error :: "string \<Rightarrow> app \<Rightarrow> app" where
  "on_error m s = setErr (err_text m) (setStatus ''Zeroconf error (usa QR)'' s)"

text \<open>The timer's callback, for a callback that closed over \<open>bu\<close>; and the oldest
  pending timer firing.\<close>

definition on_timeout :: "string option \<Rightarrow> app \<Rightarrow> app" where
  "on_timeout bu s =
     (if \<not> present bu then setStatus ''No se encontro por mDNS. Usa QR (fallback).'' s else s)"

definition fire_timer :: "app \<Rightarrow> app" where
  "fire_timer s = (case timers s of [] \<Rightarrow> s | bu # rest \<Rightarrow> on_timeout bu (s\<lparr>timers := rest\<rparr>))"

subsection \<open>The start-up effect, the retry button and the forget button\<close>

text \<open>
  \<^verbatim>\<open>
  useEffect(() => {
    (async () => {
      const okSaved = await connectFromSaved();
      if (okSaved) return;
      const stop = startZeroconfDiscovery();
      return stop;
    })();
  }, []);
  \<close>
  The effect runs the closures of the render it was created in, whose state is
  \<open>s\<close>.
\<close>

definition startup :: "io \<Rightarrow> app \<Rightarrow> unit promise \<times> app" where
  "startup w s =
     (let bu = baseUrl s in
      case connectFromSaved w s of
          (Resolved okSaved, s1) \<Rightarrow>
            (if okSaved then (Resolved (), s1)
             else (Resolved (), snd (startZeroconfDiscovery bu s1)))
        | (Rejected e, s1) \<Rightarrow> (Rejected e, s1)
        | (Pending, s1) \<Rightarrow> (Pending, s1))"

text \<open>\<^verbatim>\<open>onPress={() => startZeroconfDiscovery()}\<close> of "Reintentar mDNS", pressed in
  the render of state \<open>s\<close>.\<close>

definition retry_mdns :: "app \<Rightarrow> app" where
  "retry_mdns s = snd (startZeroconfDiscovery (baseUrl s) s)"

text \<open>
  \<^verbatim>\<open>
  onPress={async () => {
    await SecureStore.deleteItemAsync(STORE_KEY);
    setBaseUrl(null);
    setStatus("BaseUrl borrada. Busca de nuevo.");
  }}
  \<close>
  of "Olvidar". The handler suspends at its \<^verbatim>\<open>await\<close>: \<open>forget_begin\<close> is the part
  up to it, the call of \<^verbatim>\<open>deleteItemAsync\<close>, and \<open>forget_finish\<close> the part after
  the delete has resolved. Other handlers can run in between; \<open>forget\<close> is the two
  parts with nothing in between.
\<close>

definition forget_begin :: "io \<Rightarrow> app \<Rightarrow> unit promise \<times> app" where
  "forget_begin w s = deleteItemAsync w STORE_KEY s"

definition forget_finish :: "app \<Rightarrow> app" where
  "forget_finish s = setStatus ''BaseUrl borrada. Busca de nuevo.'' (setBaseUrl None s)"

definition forget :: "io \<Rightarrow> app \<Rightarrow> unit promise \<times> app" where
  "forget w s =
     (case forget_begin w s of
          (Rejected e, s1) \<Rightarrow> (Rejected e, s1)
        | (Pending, s1) \<Rightarrow> (Pending, s1)
        | (Resolved _, s1) \<Rightarrow> (Resolved (), forget_finish s1))"

subsection \<open>The scanned code\<close>

text \<open>What \<^verbatim>\<open>JSON.parse(data)\<close> does with the scanned text: it throws a
  \<^verbatim>\<open>SyntaxError\<close> with some message, or returns the value.\<close>

datatype parse_result = SyntaxError string | Parsed json

text \<open>
  \<^verbatim>\<open>
  async function onQrScanned({ data }) {
    try {
      const parsed = JSON.parse(data);
      const url = String(parsed?.baseUrl || "").trim();
      if (!url.startsWith("http")) throw new Error("QR invalido (sin baseUrl)");
      setQrOpen(false);
      await connectWithBaseUrl(url);
    } catch (e) {
      Alert.alert("QR invalido", String(e.message || e));
    }
  }
  \<close>
  \<open>qr_decode\<close> is the first three lines of the \<^verbatim>\<open>try\<close> block: \<open>Inr\<close> the url, or
  \<open>Inl\<close> the message of the error thrown, by \<^verbatim>\<open>JSON.parse\<close>, by \<^verbatim>\<open>String\<close> or by
  the third line. \<^verbatim>\<open>onQrData\<close> of the camera screen has the same three lines.
\<close>

definition qr_decode :: "io \<Rightarrow> parse_result \<Rightarrow> string + string" where
  "qr_decode w d =
     (case d of
          SyntaxError m \<Rightarrow> Inl m
        | Parsed parsed \<Rightarrow>
            (case js_String (or_else (get_prop ''baseUrl'' (Some parsed)) (JStr [])) of
                 None \<Rightarrow> Inl (convert_error w)
               | Some text \<Rightarrow>
                   (let url = trim text in
                    if \<not> prefix ''http'' url then Inl ''QR invalido (sin baseUrl)'' else Inr url)))"

definition onQrScanned :: "io \<Rightarrow> parse_result \<Rightarrow> app \<Rightarrow> unit promise \<times> app" where
  "onQrScanned w d s =
     (case qr_decode w d of
          Inl m \<Rightarrow> (Resolved (), alert ''QR invalido'' (err_text m) s)
        | Inr url \<Rightarrow>
            (case connectWithBaseUrl w url (setQrOpen False s) of
                 (Resolved _, s1) \<Rightarrow> (Resolved (), s1)
               | (Rejected e, s1) \<Rightarrow> (Resolved (), alert ''QR invalido'' (err_text e) s1)
               | (Pending, s1) \<Rightarrow> (Pending, s1)))"

section \<open>The server's record store\<close>

text \<open>
  \<^verbatim>\<open>
  CREATE TABLE IF NOT EXISTS items (
    id INTEGER PRIMARY KEY AUTOINCREMENT,
    title TEXT NOT NULL,
    updated_at TEXT NOT NULL DEFAULT (datetime('now'))
  );
  \<close>
  The table is its rows in insertion order, with the largest row id ever given
  (\<^verbatim>\<open>AUTOINCREMENT\<close> never reuses one).
\<close>

record item =
  item_id :: nat
  title :: string
  updated_at :: string

record db =
  items :: "item list"
  seq :: nat

definition empty_db :: db where
  "empty_db = \<lparr>items = [], seq = 0\<rparr>"

text \<open>\<^verbatim>\<open>Number(req.params.id)\<close>: NaN and the infinities, or a finite number.\<close>

datatype number = NonFinite | Fin rat

text \<open>\<^verbatim>\<open>!Number.isFinite(id) || id <= 0\<close>, and \<^verbatim>\<open>WHERE id=?\<close> against a row id.\<close>

fun id_invalid :: "number \<Rightarrow> bool" where
  "id_invalid NonFinite = True"
| "id_invalid (Fin q) = (q \<le> 0)"

fun id_is :: "number \<Rightarrow> item \<Rightarrow> bool" where
  "id_is NonFinite r = False"
| "id_is (Fin q) r = (of_nat (item_id r) = q)"

datatype reply_body =
    ErrorJson string
  | ErrorPage
  | RowJson "item option"
  | RowsJson "item list"
  | OkJson

type_synonym reply = "nat \<times> reply_body"

definition select_by_id :: "number \<Rightarrow> db \<Rightarrow> item option" where
  "select_by_id n d = find (id_is n) (items d)"

definition next_rowid :: "db \<Rightarrow> nat" where
  "next_rowid d = Suc (fold max (map item_id (items d)) (seq d))"

text \<open>\<^verbatim>\<open>String(req.body?.title ?? "").trim()\<close>, shared by the two handlers; \<open>None\<close>
  when \<^verbatim>\<open>String\<close> throws. Express answers an error thrown by a handler with status
  500 and its error page.\<close>

definition title_of :: "jsval \<Rightarrow> string option" where
  "title_of reqbody = map_option trim (js_String (nullish_empty (get_prop ''title'' reqbody)))"

text \<open>
  \<^verbatim>\<open>
  app.get("/items", (_req, res) => {
    const rows = db.prepare("SELECT id, title, updated_at FROM items ORDER BY id DESC").all();
    res.json(rows);
  });
  \<close>
\<close>

definition get_items :: "db \<Rightarrow> reply \<times> db" where
  "get_items d = ((200, RowsJson (rev (sort_key item_id (items d)))), d)"

text \<open>
  \<^verbatim>\<open>
  app.post("/items", (req, res) => {
    const title = String(req.body?.title ?? "").trim();
    if (!title) return res.status(400).json({ error: "title requerido" });
    const stmt = db.prepare("INSERT INTO items (title, updated_at) VALUES (?, ?)");
    const info = stmt.run(title, nowIso());
    const row = db.prepare("SELECT id, title, updated_at FROM items WHERE id=?").get(info.lastInsertRowid);
    res.status(201).json(row);
  });
  \<close>
  \<open>now\<close> is what \<^verbatim>\<open>nowIso()\<close> returns.
\<close>

definition post_items :: "string \<Rightarrow> jsval \<Rightarrow> db \<Rightarrow> reply \<times> db" where
  "post_items now reqbody d =
     (case title_of reqbody of
          None \<Rightarrow> ((500, ErrorPage), d)
        | Some t \<Rightarrow>
            (if t = [] then ((400, ErrorJson ''title requerido''), d)
             else
               (let rowid = next_rowid d;
                    d1 = d\<lparr>items := items d @ [\<lparr>item_id = rowid, title = t, updated_at = now\<rparr>],
                           seq := rowid\<rparr>
                in ((201, RowJson (select_by_id (Fin (of_nat rowid)) d1)), d1))))"

text \<open>
  \<^verbatim>\<open>
  app.put("/items/:id", (req, res) => {
    const id = Number(req.params.id);
    const title = String(req.body?.title ?? "").trim();
    if (!Number.isFinite(id) || id <= 0) return res.status(400).json({ error: "id invalido" });
    if (!title) return res.status(400).json({ error: "title requerido" });
    const existing = db.prepare("SELECT id FROM items WHERE id=?").get(id);
    if (!existing) return res.status(404).json({ error: "no encontrado" });
    db.prepare("UPDATE items SET title=?, updated_at=? WHERE id=?").run(title, nowIso(), id);
    const row = db.prepare("SELECT id, title, updated_at FROM items WHERE id=?").get(id);
    res.json(row);
  });
  \<close>
\<close>

definition put_item :: "string \<Rightarrow> number \<Rightarrow> jsval \<Rightarrow> db \<Rightarrow> reply \<times> db" where
  "put_item now n reqbody d =
     (case title_of reqbody of
          None \<Rightarrow> ((500, ErrorPage), d)
        | Some t \<Rightarrow>
            (if id_invalid n then ((400, ErrorJson ''id invalido''), d)
             else if t = [] then ((400, ErrorJson ''title requerido''), d)
             else
               (case select_by_id n d of
                    None \<Rightarrow> ((404, ErrorJson ''no encontrado''), d)
                  | Some _ \<Rightarrow>
                      (let d1 = d\<lparr>items :=
                                  map (\<lambda>r. if id_is n r then r\<lparr>title := t, updated_at := now\<rparr> else r)
                                    (items d)\<rparr>
                       in ((200, RowJson (select_by_id n d1)), d1)))))"

text \<open>
  \<^verbatim>\<open>
  app.delete("/items/:id", (req, res) => {
    const id = Number(req.params.id);
    if (!Number.isFinite(id) || id <= 0) return res.status(400).json({ error: "id invalido" });
    const info = db.prepare("DELETE FROM items WHERE id=?").run(id);
    if (info.changes === 0) return res.status(404).json({ error: "no encontrado" });
    res.json({ ok: true });
  });
  \<close>
\<close>

definition delete_item :: "number \<Rightarrow> db \<Rightarrow> reply \<times> db" where
  "delete_item n d =
     (if id_invalid n then ((400, ErrorJson ''id invalido''), d)
      else
        (let changes = length (filter (id_is n) (items d));
             d1 = d\<lparr>items := filter (\<lambda>r. \<not> id_is n r) (items d)\<rparr>
         in if changes = 0 then ((404, ErrorJson ''no encontrado''), d1)
            else ((200, OkJson), d1)))"

text \<open>A request to the \<^verbatim>\<open>/items\<close> routes, with the clock reading it is served at;
  and a sequence of them served one after the other.\<close>

datatype request =
    GetItems
  | PostItems jsval
  | PutItem number jsval
  | DeleteItem number

fun serve :: "string \<times> request \<Rightarrow> db \<Rightarrow> reply \<times> db" where
  "serve (now, GetItems) d = get_items d"
| "serve (now, PostItems b) d = post_items now b d"
| "serve (now, PutItem n b) d = put_item now n b d"
| "serve (now, DeleteItem n) d = delete_item n d"

fun serve_all :: "(string \<times> request) list \<Rightarrow> db \<Rightarrow> db" where
  "serve_all [] d = d"
| "serve_all (r # rs) d = serve_all rs (snd (serve r d))"

text \<open>Every stored title is non-empty and has no white space at either end.\<close>

definition titles_ok :: "db \<Rightarrow> bool" where
  "titles_ok d = list_all (\<lambda>r. title r \<noteq> [] \<and> trimmed (title r)) (items d)"

text \<open>\<^verbatim>\<open>app.get("/health", (_req, res) => res.json({ ok: true, time: nowIso() }))\<close>:
  the body the server answers the probe with.\<close>

definition health_reply :: "string \<Rightarrow> json" where
  "health_reply now = JObj [(''ok'', JBool True), (''time'', JStr now)]"

section \<open>The claim's words for an address\<close>

text \<open>
  For comparison with the handler's test \<open>has_dot\<close>, which comes from the code: a
  syntactically valid IPv4 address, in the words of the specification, read as
  four decimal numbers from 0 to 255 separated by dots. No code of the program
  computes this.
\<close>

fun split_dots :: "string \<Rightarrow> string list" where
  "split_dots [] = [[]]"
| "split_dots (c # cs) =
     (if c = CHR ''.'' then [] # split_dots cs
      else (case split_dots cs of [] \<Rightarrow> [[c]] | p # ps \<Rightarrow> (c # p) # ps))"

definition is_digit :: "char \<Rightarrow> bool" where
  "is_digit c = (c \<in> set ''0123456789'')"

definition decimal :: "string \<Rightarrow> nat" where
  "decimal p = foldl (\<lambda>n c. 10 * n + (of_char c - 48)) 0 p"

definition octet :: "string \<Rightarrow> bool" where
  "octet p = (p \<noteq> [] \<and> length p \<le> 3 \<and> list_all is_digit p \<and> decimal p \<le> 255)"

definition spec_ipv4 :: "string \<Rightarrow> bool" where
  "spec_ipv4 a = (length (split_dots a) = 4 \<and> list_all octet (split_dots a))"

section \<open>Runs, and a sample environment\<close>

text \<open>The events a run from \<open>s\<close> to \<open>s'\<close> added, and "\<open>a\<close> happened, and \<open>b\<close>
  happened later" in a list of events.\<close>

definition emitted :: "app \<Rightarrow> app \<Rightarrow> event list" where
  "emitted s s' = drop (length (trace s)) (trace s')"

definition before :: "event \<Rightarrow> event \<Rightarrow> event list \<Rightarrow> bool" where
  "before a b es = (b \<in> set (drop 1 (dropWhile (\<lambda>e. e \<noteq> a) es)))"

text \<open>An environment where everything works: the server answers \<^verbatim>\<open>/health\<close> with
  status 200 and its usual body, and every \<^verbatim>\<open>SecureStore\<close> call resolves. The
  examples below change one field of it at a time.\<close>

definition io_up :: io where
  "io_up = \<lparr>fetch_result =
       Resolved \<lparr>ok = True, body = Resolved (health_reply ''2024-05-01T10:00:00.000Z'')\<rparr>,
     getItem_ok = True, setItem_ok = True, deleteItem_ok = True,
     store_error = ''SecureStore failure'', type_error = ''undefined is not a function'',
     convert_error = ''Cannot convert object to primitive value''\<rparr>"

text \<open>A resolved service as Zeroconf reports the server: an IPv6 address first, then
  an IPv4 one.\<close>

definition advert :: jsval where
  "advert = Some (JObj [(''name'', JStr ''Ivadent Server''),
     (''addresses'', JArr [JStr ''fe80::1c2d:3eff:fe4f:5a6b'', JStr ''10.0.0.9'']),
     (''port'', JNum True ''4310'')])"

section \<open>Properties of the record store\<close>

lemma last_dropWhile_ne: "dropWhile P xs \<noteq> [] \<Longrightarrow> last (dropWhile P xs) = last xs"
  by (induction xs) (auto split: if_splits)

lemma trimmed_trim: "trimmed (trim s)"
proof (cases "trim s")
  case Nil
  then show ?thesis by (simp add: trimmed_def)
next
  case (Cons c cs)
  define t where "t = dropWhile is_ws s"
  define u where "u = dropWhile is_ws (rev t)"
  have ts: "trim s = rev u" by (simp add: trim_def t_def u_def)
  with Cons have une: "u \<noteq> []" by auto
  then have tne: "t \<noteq> []" by (auto simp: u_def)
  have "last (trim s) = hd u" using une ts by (simp add: last_rev)
  moreover have "\<not> is_ws (hd u)" using une unfolding u_def by (rule hd_dropWhile)
  moreover have "hd (trim s) = last u" using une ts by (simp add: hd_rev)
  moreover have "last u = last (rev t)" using une unfolding u_def by (rule last_dropWhile_ne)
  moreover have "last (rev t) = hd t" using tne by (simp add: last_rev)
  moreover have "\<not> is_ws (hd t)" using tne unfolding t_def by (rule hd_dropWhile)
  ultimately have "\<not> is_ws (hd (trim s)) \<and> \<not> is_ws (last (trim s))" by simp
  with Cons show ?thesis by (simp add: trimmed_def)
qed

lemma trim_blank: "\<forall>c\<in>set t. is_ws c \<Longrightarrow> trim t = []"
proof -
  assume "\<forall>c\<in>set t. is_ws c"
  then have d: "dropWhile is_ws t = []" using dropWhile_eq_Nil_conv by blast
  show ?thesis unfolding trim_def d by simp
qed

lemma title_of_blank:
  "get_prop ''title'' b = None \<or> get_prop ''title'' b = Some JNull
     \<or> (\<exists>t. get_prop ''title'' b = Some (JStr t) \<and> (\<forall>c\<in>set t. is_ws c))
   \<Longrightarrow> title_of b = Some []"
proof -
  assume h: "get_prop ''title'' b = None \<or> get_prop ''title'' b = Some JNull
     \<or> (\<exists>t. get_prop ''title'' b = Some (JStr t) \<and> (\<forall>c\<in>set t. is_ws c))"
  have e: "trim [] = []" by (simp add: trim_def)
  from h show ?thesis
    by (auto simp: title_of_def e intro: trim_blank)
qed

lemma title_of_trimmed: "title_of b = Some t \<Longrightarrow> trimmed t"
  by (auto simp: title_of_def trimmed_trim)

lemma post_items_keeps: "titles_ok d \<Longrightarrow> titles_ok (snd (post_items now b d))"
  by (auto simp: post_items_def titles_ok_def Let_def title_of_trimmed split: option.splits)

lemma put_item_keeps: "titles_ok d \<Longrightarrow> titles_ok (snd (put_item now n b d))"
  by (auto simp: put_item_def titles_ok_def Let_def title_of_trimmed list_all_iff
      split: option.splits)

lemma delete_item_keeps: "titles_ok d \<Longrightarrow> titles_ok (snd (delete_item n d))"
  by (auto simp: delete_item_def titles_ok_def Let_def list_all_iff)

text \<open>A title that \<^verbatim>\<open>String\<close> cannot convert is answered with status 500, whatever the
  id, and stores nothing.\<close>

lemma unprintable_title_500:
  "js_String (nullish_empty (get_prop ''title'' b)) = None \<Longrightarrow>
     post_items now b d = ((500, ErrorPage), d) \<and> put_item now n b d = ((500, ErrorPage), d)"
  by (simp add: post_items_def put_item_def title_of_def)

lemma serve_keeps: "titles_ok d \<Longrightarrow> titles_ok (snd (serve r d))"
proof (cases r)
  case (Pair now q)
  assume "titles_ok d"
  then show ?thesis using Pair
    by (cases q) (simp_all add: post_items_keeps put_item_keeps delete_item_keeps get_items_def)
qed

lemma serve_all_keeps: "titles_ok d \<Longrightarrow> titles_ok (serve_all rs d)"
  by (induction rs arbitrary: d) (simp_all add: serve_keeps)

text \<open>
  Claim C10. Every item the server stores has a non-empty title with no white space
  at either end: this holds after any sequence of requests served from the empty
  table, and every request keeps it. A title that is missing, \<^verbatim>\<open>null\<close>, empty or
  made of white space only is answered with status 400 by \<^verbatim>\<open>POST /items\<close> and by
  \<^verbatim>\<open>PUT /items/:id\<close>, and the table is left as it was.
\<close>

theorem stored_titles_trimmed_nonempty:
  "titles_ok (serve_all rs empty_db)
   \<and> (titles_ok d \<longrightarrow> titles_ok (snd (serve r d)))
   \<and> (get_prop ''title'' b = None \<or> get_prop ''title'' b = Some JNull
        \<or> (\<exists>t. get_prop ''title'' b = Some (JStr t) \<and> (\<forall>c\<in>set t. is_ws c))
      \<longrightarrow> post_items now b d = ((400, ErrorJson ''title requerido''), d)
          \<and> fst (fst (put_item now n b d)) = 400 \<and> snd (put_item now n b d) = d)"
proof -
  have "titles_ok empty_db" by (simp add: titles_ok_def empty_db_def)
  then have a: "titles_ok (serve_all rs empty_db)" by (rule serve_all_keeps)
  have b: "titles_ok d \<longrightarrow> titles_ok (snd (serve r d))" by (simp add: serve_keeps)
  have c: "title_of b = Some [] \<Longrightarrow> post_items now b d = ((400, ErrorJson ''title requerido''), d)
          \<and> fst (fst (put_item now n b d)) = 400 \<and> snd (put_item now n b d) = d"
    by (simp add: post_items_def put_item_def)
  show ?thesis using a b c title_of_blank by blast
qed

text \<open>The theorem at a create and an update with padded titles, and at a title of
  two spaces.\<close>

theorem stored_titles_trimmed_nonempty_witness:
  "titles_ok (serve_all [(''t1'', PostItems (Some (JObj [(''title'', JStr ''  milk '')]))),
                         (''t2'', PutItem (Fin 1) (Some (JObj [(''title'', JStr '' tea'')])))] empty_db)
   \<and> titles_ok (snd (serve (''t1'', PostItems (Some (JObj [(''title'', JStr ''  milk '')]))) empty_db))
   \<and> post_items ''t3'' (Some (JObj [(''title'', JStr ''  '')])) empty_db
       = ((400, ErrorJson ''title requerido''), empty_db)
   \<and> fst (fst (put_item ''t3'' (Fin 1) (Some (JObj [(''title'', JStr ''  '')])) empty_db)) = 400
   \<and> snd (put_item ''t3'' (Fin 1) (Some (JObj [(''title'', JStr ''  '')])) empty_db) = empty_db"
proof -
  have h1: "titles_ok empty_db" by (simp add: titles_ok_def empty_db_def)
  have h2: "get_prop ''title'' (Some (JObj [(''title'', JStr ''  '')])) = Some (JStr ''  '')
            \<and> (\<forall>c\<in>set ''  ''. is_ws c)"
    by (simp add: is_ws_def)
  show ?thesis
    using h1 h2
      stored_titles_trimmed_nonempty [of
        "[(''t1'', PostItems (Some (JObj [(''title'', JStr ''  milk '')]))),
          (''t2'', PutItem (Fin 1) (Some (JObj [(''title'', JStr '' tea'')])))]"
        empty_db "(''t1'', PostItems (Some (JObj [(''title'', JStr ''  milk '')])))"
        "Some (JObj [(''title'', JStr ''  '')])" "''t3''" "Fin 1"]
    by blast
qed

section \<open>Properties of the client\<close>

subsection \<open>The five ways connectWithBaseUrl can go\<close>

lemmas app_defs = connectWithBaseUrl_def connect_begin_def connect_resume_def connect_store_def
  connect_finish_def setItemAsync_def
  emit_def setStatus_def setBaseUrl_def Let_def

lemmas run_defs = app_defs startup_def connectFromSaved_def getItemAsync_def present_def
  startZeroconfDiscovery_def initial_def io_up_def health_reply_def STORE_KEY_def

lemma connect_connected:
  assumes "tryHealth (fetch_result w) = Resolved True" and "setItem_ok w"
  shows "connectWithBaseUrl w url s =
    (Resolved (), s\<lparr>baseUrl := Some url, status := ''Conectado'',
       secure := AList.update STORE_KEY url (secure s),
       trace := trace s @ [Fetch (url @ ''/health''), HealthReturned url True,
                           Stored STORE_KEY url, SetBaseUrl (Some url)]\<rparr>)"
  using assms by (simp add: app_defs)

lemma connect_store_fails:
  assumes "tryHealth (fetch_result w) = Resolved True" and "\<not> setItem_ok w"
  shows "connectWithBaseUrl w url s =
    (Rejected (store_error w), s\<lparr>status := ''Probando conexion...'',
       trace := trace s @ [Fetch (url @ ''/health''), HealthReturned url True]\<rparr>)"
  using assms by (simp add: app_defs)

lemma connect_refused:
  assumes "tryHealth (fetch_result w) = Resolved False"
  shows "connectWithBaseUrl w url s =
    (Rejected ''No responde /health (misma red? firewall?)'',
     s\<lparr>status := ''No se pudo conectar.'',
       trace := trace s @ [Fetch (url @ ''/health''), HealthReturned url False]\<rparr>)"
  using assms by (simp add: app_defs)

lemma connect_raises:
  assumes "tryHealth (fetch_result w) = Rejected e"
  shows "connectWithBaseUrl w url s =
    (Rejected e, s\<lparr>status := ''Probando conexion...'',
       trace := trace s @ [Fetch (url @ ''/health'')]\<rparr>)"
  using assms by (simp add: app_defs)

lemma connect_pending:
  assumes "tryHealth (fetch_result w) = Pending"
  shows "connectWithBaseUrl w url s =
    (Pending, s\<lparr>status := ''Probando conexion...'',
       trace := trace s @ [Fetch (url @ ''/health'')]\<rparr>)"
  using assms by (simp add: app_defs)

lemma probe_cases:
  obtains (connected) "tryHealth (fetch_result w) = Resolved True" "setItem_ok w"
  | (store_fails) "tryHealth (fetch_result w) = Resolved True" "\<not> setItem_ok w"
  | (refused) "tryHealth (fetch_result w) = Resolved False"
  | (raises) e where "tryHealth (fetch_result w) = Rejected e"
  | (pending) "tryHealth (fetch_result w) = Pending"
proof (cases "tryHealth (fetch_result w)")
  case (Resolved h)
  then show ?thesis using that by (cases h; cases "setItem_ok w") auto
qed (use that in auto)

lemma connect_emits_fetch:
  "\<exists>es. trace (snd (connectWithBaseUrl w url s)) = trace s @ Fetch (url @ ''/health'') # es"
  by (cases rule: probe_cases [of w])
    (simp_all add: connect_connected connect_store_fails connect_refused connect_raises
      connect_pending)

lemma connectFromSaved_run:
  assumes "getItem_ok w" and "map_of (secure s) STORE_KEY = Some E" and "E \<noteq> []"
  shows "connectFromSaved w s =
    (case connectWithBaseUrl w E s of
         (Resolved _, s1) \<Rightarrow> (Resolved True, s1)
       | (Rejected _, s1) \<Rightarrow> (Resolved False, s1)
       | (Pending, s1) \<Rightarrow> (Pending, s1))"
  using assms by (simp add: connectFromSaved_def getItemAsync_def present_def)

text \<open>The server's own reply passes the probe.\<close>

lemma tryHealth_accepts_health_reply:
  "tryHealth (Resolved \<lparr>ok = True, body = Resolved (health_reply now)\<rparr>) = Resolved True"
  by (simp add: health_reply_def)

subsection \<open>Connected only after a probe and a store write\<close>

text \<open>
  Claim C1. Whenever a run of \<^verbatim>\<open>connectWithBaseUrl(url)\<close> sets the state to
  Connected, that is, calls \<^verbatim>\<open>setBaseUrl\<close> with an endpoint, the endpoint is \<open>url\<close>,
  \<^verbatim>\<open>tryHealth(url)\<close> returned \<^verbatim>\<open>true\<close> earlier in the run, \<open>url\<close> was written to
  \<^verbatim>\<open>SecureStore\<close> under \<^verbatim>\<open>STORE_KEY\<close> earlier in the run, and the store holds \<open>url\<close>
  when the run ends.
\<close>

theorem connected_only_after_probe_and_store:
  assumes "connectWithBaseUrl w url s = (r, s')"
    and "SetBaseUrl (Some u) \<in> set (emitted s s')"
  shows "u = url \<and> tryHealth (fetch_result w) = Resolved True
    \<and> before (HealthReturned url True) (SetBaseUrl (Some url)) (emitted s s')
    \<and> before (Stored STORE_KEY url) (SetBaseUrl (Some url)) (emitted s s')
    \<and> map_of (secure s') STORE_KEY = Some url \<and> baseUrl s' = Some url"
proof (cases rule: probe_cases [of w])
  case connected
  from connect_connected [OF this, of url s] assms show ?thesis
    using connected(1) by (auto simp: emitted_def before_def update_conv')
next
  case store_fails
  from connect_store_fails [OF this, of url s] assms show ?thesis
    by (auto simp: emitted_def)
next
  case refused
  from connect_refused [OF this, of url s] assms show ?thesis
    by (auto simp: emitted_def)
next
  case (raises e)
  from connect_raises [OF this, of url s] assms show ?thesis
    by (auto simp: emitted_def)
next
  case pending
  from connect_pending [OF this, of url s] assms show ?thesis
    by (auto simp: emitted_def)
qed

text \<open>The theorem at a server that is up, from the first render over an empty store.\<close>

theorem connected_only_after_probe_and_store_witness:
  "SetBaseUrl (Some ''http://10.0.0.9:4310'')
     \<in> set (emitted (initial []) (snd (connectWithBaseUrl io_up ''http://10.0.0.9:4310'' (initial []))))
   \<and> before (HealthReturned ''http://10.0.0.9:4310'' True) (SetBaseUrl (Some ''http://10.0.0.9:4310''))
       (emitted (initial []) (snd (connectWithBaseUrl io_up ''http://10.0.0.9:4310'' (initial []))))
   \<and> before (Stored STORE_KEY ''http://10.0.0.9:4310'') (SetBaseUrl (Some ''http://10.0.0.9:4310''))
       (emitted (initial []) (snd (connectWithBaseUrl io_up ''http://10.0.0.9:4310'' (initial []))))
   \<and> map_of (secure (snd (connectWithBaseUrl io_up ''http://10.0.0.9:4310'' (initial [])))) STORE_KEY
       = Some ''http://10.0.0.9:4310''"
proof -
  have h1: "connectWithBaseUrl io_up ''http://10.0.0.9:4310'' (initial [])
      = (fst (connectWithBaseUrl io_up ''http://10.0.0.9:4310'' (initial [])),
         snd (connectWithBaseUrl io_up ''http://10.0.0.9:4310'' (initial [])))"
    by simp
  have h2: "SetBaseUrl (Some ''http://10.0.0.9:4310'')
     \<in> set (emitted (initial []) (snd (connectWithBaseUrl io_up ''http://10.0.0.9:4310'' (initial []))))"
    by (simp add: run_defs emitted_def)
  from connected_only_after_probe_and_store [OF h1 h2] h2 show ?thesis by simp
qed

subsection \<open>Start-up with a saved endpoint that answers\<close>

text \<open>
  The saved endpoint answers the probe, but \<^verbatim>\<open>SecureStore.setItemAsync\<close> rejects:
  \<^verbatim>\<open>connectWithBaseUrl\<close> throws before \<^verbatim>\<open>setBaseUrl\<close>, \<^verbatim>\<open>connectFromSaved\<close> returns
  \<^verbatim>\<open>false\<close>, and the effect starts discovery with no endpoint connected.
\<close>

theorem startup_store_write_fails_counterexample:
  "tryHealth (fetch_result (io_up\<lparr>setItem_ok := False\<rparr>)) = Resolved True
   \<and> map_of (secure (initial [(STORE_KEY, ''http://192.168.1.50:4310'')])) STORE_KEY
       = Some ''http://192.168.1.50:4310''
   \<and> baseUrl (snd (startup (io_up\<lparr>setItem_ok := False\<rparr>)
         (initial [(STORE_KEY, ''http://192.168.1.50:4310'')]))) = None
   \<and> zeroconfs (snd (startup (io_up\<lparr>setItem_ok := False\<rparr>)
         (initial [(STORE_KEY, ''http://192.168.1.50:4310'')]))) = [True]
   \<and> Scan 0 \<in> set (trace (snd (startup (io_up\<lparr>setItem_ok := False\<rparr>)
         (initial [(STORE_KEY, ''http://192.168.1.50:4310'')]))))"
  by (simp add: run_defs)

text \<open>
  Claim C2, as amended. When the store returns a saved endpoint \<open>E\<close> (a non-empty
  string) at start-up, the probe of \<open>E\<close> succeeds and the store write that follows
  succeeds, the start-up effect ends with \<open>E\<close> connected and the status
  \<^verbatim>\<open>Conectado\<close>, and it never starts discovery: no Zeroconf instance exists, no timer
  is pending and no scan was started.
\<close>

theorem startup_saved_endpoint_connects:
  assumes "getItem_ok w" and "map_of st STORE_KEY = Some E" and "E \<noteq> []"
    and "tryHealth (fetch_result w) = Resolved True" and "setItem_ok w"
  shows "fst (startup w (initial st)) = Resolved ()
    \<and> baseUrl (snd (startup w (initial st))) = Some E
    \<and> status (snd (startup w (initial st))) = ''Conectado''
    \<and> map_of (secure (snd (startup w (initial st)))) STORE_KEY = Some E
    \<and> zeroconfs (snd (startup w (initial st))) = []
    \<and> timers (snd (startup w (initial st))) = []
    \<and> (\<forall>z. Scan z \<notin> set (trace (snd (startup w (initial st)))))"
proof -
  have s: "map_of (secure (initial st)) STORE_KEY = Some E"
    using assms(2) by (simp add: initial_def)
  show ?thesis
    unfolding startup_def connectFromSaved_run [OF assms(1) s assms(3)]
      connect_connected [OF assms(4,5)]
    by (simp add: initial_def update_conv')
qed

theorem startup_saved_endpoint_connects_witness:
  "fst (startup io_up (initial [(STORE_KEY, ''http://192.168.1.50:4310'')])) = Resolved ()
   \<and> baseUrl (snd (startup io_up (initial [(STORE_KEY, ''http://192.168.1.50:4310'')])))
       = Some ''http://192.168.1.50:4310''
   \<and> zeroconfs (snd (startup io_up (initial [(STORE_KEY, ''http://192.168.1.50:4310'')]))) = []"
proof -
  have h: "getItem_ok io_up"
    "map_of [(STORE_KEY, ''http://192.168.1.50:4310'')] STORE_KEY = Some ''http://192.168.1.50:4310''"
    "''http://192.168.1.50:4310'' \<noteq> []"
    "tryHealth (fetch_result io_up) = Resolved True" "setItem_ok io_up"
    by (simp_all add: io_up_def health_reply_def)
  from startup_saved_endpoint_connects [OF h] show ?thesis by simp
qed

subsection \<open>Start-up with a saved endpoint that does not answer\<close>

text \<open>
  Claim C3. When the store returns a saved endpoint \<open>E\<close> at start-up and the probe
  of \<open>E\<close> fails (\<^verbatim>\<open>tryHealth\<close> returns \<^verbatim>\<open>false\<close> or throws), the start-up effect ends
  with no endpoint connected, the status \<^verbatim>\<open>Buscando por mDNS (Zeroconf)...\<close> and one
  Zeroconf instance scanning; the store is what it was, and still returns \<open>E\<close>.
\<close>

theorem startup_saved_endpoint_unreachable:
  assumes "getItem_ok w" and "map_of st STORE_KEY = Some E"
    and "tryHealth (fetch_result w) = Resolved False \<or> tryHealth (fetch_result w) = Rejected e"
  shows "fst (startup w (initial st)) = Resolved ()
    \<and> baseUrl (snd (startup w (initial st))) = None
    \<and> status (snd (startup w (initial st))) = ''Buscando por mDNS (Zeroconf)...''
    \<and> zeroconfs (snd (startup w (initial st))) = [True]
    \<and> Scan 0 \<in> set (trace (snd (startup w (initial st))))
    \<and> secure (snd (startup w (initial st))) = st
    \<and> map_of (secure (snd (startup w (initial st)))) STORE_KEY = Some E"
proof (cases "E = []")
  case True
  then show ?thesis using assms(1,2)
    by (simp add: startup_def connectFromSaved_def getItemAsync_def present_def
        startZeroconfDiscovery_def initial_def emit_def setStatus_def Let_def)
next
  case False
  have s: "map_of (secure (initial st)) STORE_KEY = Some E"
    using assms(2) by (simp add: initial_def)
  from assms(3) show ?thesis
  proof
    assume r: "tryHealth (fetch_result w) = Resolved False"
    show ?thesis
      unfolding startup_def connectFromSaved_run [OF assms(1) s False] connect_refused [OF r]
      using assms(2)
      by (simp add: startZeroconfDiscovery_def initial_def emit_def setStatus_def Let_def)
  next
    assume r: "tryHealth (fetch_result w) = Rejected e"
    show ?thesis
      unfolding startup_def connectFromSaved_run [OF assms(1) s False] connect_raises [OF r]
      using assms(2)
      by (simp add: startZeroconfDiscovery_def initial_def emit_def setStatus_def Let_def)
  qed
qed

theorem startup_saved_endpoint_unreachable_witness:
  "status (snd (startup (io_up\<lparr>fetch_result := Rejected ''Network request failed''\<rparr>)
       (initial [(STORE_KEY, ''http://192.168.1.50:4310'')]))) = ''Buscando por mDNS (Zeroconf)...''
   \<and> zeroconfs (snd (startup (io_up\<lparr>fetch_result := Rejected ''Network request failed''\<rparr>)
       (initial [(STORE_KEY, ''http://192.168.1.50:4310'')]))) = [True]
   \<and> map_of (secure (snd (startup (io_up\<lparr>fetch_result := Rejected ''Network request failed''\<rparr>)
       (initial [(STORE_KEY, ''http://192.168.1.50:4310'')])))) STORE_KEY
       = Some ''http://192.168.1.50:4310''"
proof -
  have h: "getItem_ok (io_up\<lparr>fetch_result := Rejected ''Network request failed''\<rparr>)"
    "map_of [(STORE_KEY, ''http://192.168.1.50:4310'')] STORE_KEY = Some ''http://192.168.1.50:4310''"
    "tryHealth (fetch_result (io_up\<lparr>fetch_result := Rejected ''Network request failed''\<rparr>))
        = Resolved False
     \<or> tryHealth (fetch_result (io_up\<lparr>fetch_result := Rejected ''Network request failed''\<rparr>))
        = Rejected ''Network request failed''"
    by (simp_all add: io_up_def)
  from startup_saved_endpoint_unreachable [OF h] show ?thesis by simp
qed

subsection \<open>What the probe does with each outcome\<close>

text \<open>
  The network is unreachable: \<^verbatim>\<open>fetch\<close> rejects, nothing in \<^verbatim>\<open>tryHealth\<close> catches
  it, so \<^verbatim>\<open>tryHealth\<close> throws instead of returning \<^verbatim>\<open>false\<close>, and so does
  \<^verbatim>\<open>connectWithBaseUrl\<close>.
\<close>

theorem tryHealth_unreachable_counterexample:
  "tryHealth (Rejected ''Network request failed'') = Rejected ''Network request failed''
   \<and> tryHealth (Rejected ''Network request failed'') \<noteq> Resolved False
   \<and> fst (connectWithBaseUrl (io_up\<lparr>fetch_result := Rejected ''Network request failed''\<rparr>)
        ''http://192.168.1.50:4310'' (initial [])) = Rejected ''Network request failed''"
  by (simp add: run_defs)

lemma on_resolved_catches: "fst (on_resolved w z sv s) \<noteq> Rejected e"
  by (auto simp: on_resolved_def Let_def split: sum.splits option.splits prod.splits promise.splits)

lemma onQrScanned_catches: "fst (onQrScanned w d s) \<noteq> Rejected e"
  by (auto simp: onQrScanned_def split: sum.splits prod.splits promise.splits)

lemma connectFromSaved_catches: "getItem_ok w \<Longrightarrow> fst (connectFromSaved w s) \<noteq> Rejected e"
  by (auto simp: connectFromSaved_def getItemAsync_def
      split: option.splits prod.splits promise.splits)

text \<open>
  Claim C4, as amended. \<^verbatim>\<open>tryHealth\<close> returns \<^verbatim>\<open>false\<close>, and does not throw, when the
  server answers with a non-success status, with a body that is not JSON, or with a
  body whose \<^verbatim>\<open>ok\<close> marker is missing or falsy. When the request itself fails
  \<^verbatim>\<open>fetch\<close> rejects and \<^verbatim>\<open>tryHealth\<close> throws that error; \<^verbatim>\<open>connectWithBaseUrl\<close>
  passes it on, and each of its callers catches it: \<^verbatim>\<open>connectFromSaved\<close> (once the
  store has been read), the \<^verbatim>\<open>resolved\<close> handler and \<^verbatim>\<open>onQrScanned\<close> never reject.
  The probe sets no time limit: while \<^verbatim>\<open>fetch\<close> is pending, \<^verbatim>\<open>tryHealth\<close> and
  \<^verbatim>\<open>connectWithBaseUrl\<close> are pending.
\<close>

theorem tryHealth_outcomes:
  "tryHealth (Resolved \<lparr>ok = False, body = b\<rparr>) = Resolved False
   \<and> tryHealth (Resolved \<lparr>ok = True, body = Rejected m\<rparr>) = Resolved False
   \<and> tryHealth (Resolved \<lparr>ok = True, body = Resolved data\<rparr>)
       = Resolved (truthy (get_prop ''ok'' (Some data)))
   \<and> (get_prop ''ok'' (Some data) = None
        \<longrightarrow> tryHealth (Resolved \<lparr>ok = True, body = Resolved data\<rparr>) = Resolved False)
   \<and> tryHealth (Rejected e) = Rejected e
   \<and> tryHealth Pending = Pending
   \<and> fst (connectWithBaseUrl (w\<lparr>fetch_result := Rejected e\<rparr>) url s) = Rejected e
   \<and> fst (connectWithBaseUrl (w\<lparr>fetch_result := Pending\<rparr>) url s) = Pending
   \<and> (getItem_ok w \<longrightarrow> fst (connectFromSaved w s) \<noteq> Rejected e')
   \<and> fst (on_resolved w z sv s) \<noteq> Rejected e'
   \<and> fst (onQrScanned w d s) \<noteq> Rejected e'"
  by (simp add: connect_raises connect_pending connectFromSaved_catches on_resolved_catches
      onQrScanned_catches)

theorem tryHealth_outcomes_witness:
  "tryHealth (Resolved \<lparr>ok = True, body = Resolved (JObj [(''status'', JStr ''up'')])\<rparr>)
       = Resolved False
   \<and> fst (connectFromSaved (io_up\<lparr>fetch_result := Rejected ''Network request failed''\<rparr>)
        (initial [(STORE_KEY, ''http://192.168.1.50:4310'')])) = Resolved False"
proof -
  have h1: "get_prop ''ok'' (Some (JObj [(''status'', JStr ''up'')])) = None" by simp
  have h2: "getItem_ok (io_up\<lparr>fetch_result := Rejected ''Network request failed''\<rparr>)"
    by (simp add: io_up_def)
  have h3: "fst (connectFromSaved (io_up\<lparr>fetch_result := Rejected ''Network request failed''\<rparr>)
        (initial [(STORE_KEY, ''http://192.168.1.50:4310'')])) = Resolved False"
    by (simp add: run_defs)
  from tryHealth_outcomes [of _ _ "JObj [(''status'', JStr ''up'')]" _
      "io_up\<lparr>fetch_result := Rejected ''Network request failed''\<rparr>"] h1 h2 h3
  show ?thesis by blast
qed

subsection \<open>The scanned code\<close>

lemma onQrScanned_invalid:
  "qr_decode w d = Inl m \<Longrightarrow>
     onQrScanned w d s = (Resolved (), s\<lparr>trace := trace s @ [Alert ''QR invalido'' (err_text m)]\<rparr>)"
  by (simp add: onQrScanned_def alert_def emit_def)

lemma trim_nil: "trim [] = []"
  by (simp add: trim_def)

lemma or_else_str: "or_else (Some (JStr u)) (JStr []) = JStr u"
  by (simp add: or_else_def)

text \<open>A \<^verbatim>\<open>baseUrl\<close> that \<^verbatim>\<open>String\<close> cannot convert fails with the engine's error.\<close>

lemma qr_decode_unprintable:
  "js_String (or_else (get_prop ''baseUrl'' (Some p)) (JStr [])) = None \<Longrightarrow>
     qr_decode w (Parsed p) = Inl (convert_error w)"
  by (simp add: qr_decode_def)

lemma qr_decode_url: "qr_decode w d = Inr url \<Longrightarrow> prefix ''http'' url \<and> trimmed url"
  by (auto simp: qr_decode_def Let_def trimmed_trim
      split: parse_result.splits option.splits if_splits)

text \<open>
  The \<^verbatim>\<open>baseUrl\<close> of the payload begins with a space, not with a scheme, and
  decoding gives a candidate all the same: the handler trims the text before it
  tests it.
\<close>

theorem qr_decode_leading_space_counterexample:
  "\<not> prefix ''http'' '' http://192.168.1.50:4310''
   \<and> qr_decode io_up (Parsed (JObj [(''baseUrl'', JStr '' http://192.168.1.50:4310'')]))
       = Inr ''http://192.168.1.50:4310''"
  by (simp add: qr_decode_def or_else_def trim_def is_ws_def)

text \<open>
  Claim C5, as amended. Decoding \<^verbatim>\<open>{"baseUrl":"http://192.168.1.50:4310"}\<close> gives
  the candidate \<^verbatim>\<open>http://192.168.1.50:4310\<close>; decoding \<^verbatim>\<open>{"baseUrl":"not-a-url"}\<close> or
  \<^verbatim>\<open>{}\<close> fails with the error \<^verbatim>\<open>QR invalido (sin baseUrl)\<close> and gives no candidate.
  In general decoding fails when \<^verbatim>\<open>JSON.parse\<close> throws, when the payload has no
  \<^verbatim>\<open>baseUrl\<close>, and when its \<^verbatim>\<open>baseUrl\<close>, a string taken without the white space
  around it, does not begin with \<^verbatim>\<open>http\<close>; every candidate that decoding does give
  begins with \<^verbatim>\<open>http\<close>. A failed decoding shows the alert \<^verbatim>\<open>QR invalido\<close> and
  changes nothing else: the connected endpoint, the status, the store and the
  Zeroconf instances stay as they were and no probe is started.
\<close>

theorem qr_decode_accepts_and_rejects:
  "qr_decode w (Parsed (JObj [(''baseUrl'', JStr ''http://192.168.1.50:4310'')]))
      = Inr ''http://192.168.1.50:4310''
   \<and> qr_decode w (Parsed (JObj [(''baseUrl'', JStr ''not-a-url'')])) = Inl ''QR invalido (sin baseUrl)''
   \<and> qr_decode w (Parsed (JObj [])) = Inl ''QR invalido (sin baseUrl)''
   \<and> qr_decode w (SyntaxError m) = Inl m
   \<and> (get_prop ''baseUrl'' (Some p) = None \<longrightarrow> qr_decode w (Parsed p) = Inl ''QR invalido (sin baseUrl)'')
   \<and> (get_prop ''baseUrl'' (Some p) = Some (JStr u) \<and> \<not> prefix ''http'' (trim u)
        \<longrightarrow> qr_decode w (Parsed p) = Inl ''QR invalido (sin baseUrl)'')
   \<and> (qr_decode w d = Inr url \<longrightarrow> prefix ''http'' url)
   \<and> (qr_decode w d = Inl e \<longrightarrow>
        fst (onQrScanned w d s) = Resolved ()
        \<and> baseUrl (snd (onQrScanned w d s)) = baseUrl s
        \<and> status (snd (onQrScanned w d s)) = status s
        \<and> secure (snd (onQrScanned w d s)) = secure s
        \<and> zeroconfs (snd (onQrScanned w d s)) = zeroconfs s
        \<and> emitted s (snd (onQrScanned w d s)) = [Alert ''QR invalido'' (err_text e)])"
proof -
  have a: "qr_decode w (Parsed (JObj [(''baseUrl'', JStr ''http://192.168.1.50:4310'')]))
      = Inr ''http://192.168.1.50:4310''"
    by (simp add: qr_decode_def or_else_def trim_def is_ws_def)
  have b: "qr_decode w (Parsed (JObj [(''baseUrl'', JStr ''not-a-url'')])) = Inl ''QR invalido (sin baseUrl)''"
    by (simp add: qr_decode_def or_else_def trim_def is_ws_def)
  have c: "qr_decode w (Parsed (JObj [])) = Inl ''QR invalido (sin baseUrl)''"
    by (simp add: qr_decode_def or_else_def trim_nil)
  have d: "qr_decode w (SyntaxError m) = Inl m"
    by (simp add: qr_decode_def)
  have e: "get_prop ''baseUrl'' (Some p) = None \<longrightarrow> qr_decode w (Parsed p) = Inl ''QR invalido (sin baseUrl)''"
    by (simp add: qr_decode_def or_else_def trim_nil)
  have f: "get_prop ''baseUrl'' (Some p) = Some (JStr u) \<and> \<not> prefix ''http'' (trim u)
        \<longrightarrow> qr_decode w (Parsed p) = Inl ''QR invalido (sin baseUrl)''"
    by (simp add: qr_decode_def or_else_str)
  have g: "qr_decode w d = Inr url \<longrightarrow> prefix ''http'' url"
    using qr_decode_url by blast
  have h: "qr_decode w d = Inl e \<longrightarrow>
        fst (onQrScanned w d s) = Resolved ()
        \<and> baseUrl (snd (onQrScanned w d s)) = baseUrl s
        \<and> status (snd (onQrScanned w d s)) = status s
        \<and> secure (snd (onQrScanned w d s)) = secure s
        \<and> zeroconfs (snd (onQrScanned w d s)) = zeroconfs s
        \<and> emitted s (snd (onQrScanned w d s)) = [Alert ''QR invalido'' (err_text e)]"
    by (simp add: onQrScanned_invalid emitted_def)
  from a b c d e f g h show ?thesis by blast
qed

text \<open>The theorem at a payload with no \<^verbatim>\<open>baseUrl\<close>, at one with another scheme, and at
  a text that is not JSON, scanned while nothing is connected.\<close>

theorem qr_decode_accepts_and_rejects_witness:
  "qr_decode io_up (Parsed (JObj [(''token'', JStr ''demo-token'')])) = Inl ''QR invalido (sin baseUrl)''
   \<and> qr_decode io_up (Parsed (JObj [(''baseUrl'', JStr ''ftp://192.168.1.50'')])) = Inl ''QR invalido (sin baseUrl)''
   \<and> prefix ''http'' ''http://192.168.1.50:4310''
   \<and> baseUrl (snd (onQrScanned io_up (SyntaxError ''JSON Parse error: Unexpected token'')
        (initial [(STORE_KEY, ''http://10.0.0.5:4310'')]))) = None
   \<and> emitted (initial [(STORE_KEY, ''http://10.0.0.5:4310'')])
        (snd (onQrScanned io_up (SyntaxError ''JSON Parse error: Unexpected token'')
           (initial [(STORE_KEY, ''http://10.0.0.5:4310'')])))
       = [Alert ''QR invalido'' ''JSON Parse error: Unexpected token'']"
proof -
  have h1: "get_prop ''baseUrl'' (Some (JObj [(''token'', JStr ''demo-token'')])) = None" by simp
  have h2: "get_prop ''baseUrl'' (Some (JObj [(''baseUrl'', JStr ''ftp://192.168.1.50'')]))
      = Some (JStr ''ftp://192.168.1.50'') \<and> \<not> prefix ''http'' (trim ''ftp://192.168.1.50'')"
    by (simp add: trim_def is_ws_def)
  have h3: "qr_decode io_up (SyntaxError ''JSON Parse error: Unexpected token'')
      = Inl ''JSON Parse error: Unexpected token''"
    by (simp add: qr_decode_def)
  have h4: "qr_decode io_up (Parsed (JObj [(''baseUrl'', JStr ''http://192.168.1.50:4310'')]))
      = Inr ''http://192.168.1.50:4310''"
    by (simp add: qr_decode_def or_else_def trim_def is_ws_def)
  from qr_decode_accepts_and_rejects [where p = "JObj [(''token'', JStr ''demo-token'')]"
      and w = io_up] h1
  have a: "qr_decode io_up (Parsed (JObj [(''token'', JStr ''demo-token'')])) = Inl ''QR invalido (sin baseUrl)''"
    by blast
  from qr_decode_accepts_and_rejects [where p = "JObj [(''baseUrl'', JStr ''ftp://192.168.1.50'')]"
      and u = "''ftp://192.168.1.50''" and w = io_up] h2
  have b: "qr_decode io_up (Parsed (JObj [(''baseUrl'', JStr ''ftp://192.168.1.50'')])) = Inl ''QR invalido (sin baseUrl)''"
    by blast
  from qr_decode_accepts_and_rejects [where
      d = "Parsed (JObj [(''baseUrl'', JStr ''http://192.168.1.50:4310'')])"
      and url = "''http://192.168.1.50:4310''" and w = io_up] h4
  have c: "prefix ''http'' ''http://192.168.1.50:4310''"
    by blast
  from qr_decode_accepts_and_rejects [where
      d = "SyntaxError ''JSON Parse error: Unexpected token''"
      and e = "''JSON Parse error: Unexpected token''" and w = io_up
      and s = "initial [(STORE_KEY, ''http://10.0.0.5:4310'')]"] h3
  have d: "baseUrl (snd (onQrScanned io_up (SyntaxError ''JSON Parse error: Unexpected token'')
        (initial [(STORE_KEY, ''http://10.0.0.5:4310'')]))) = baseUrl (initial [(STORE_KEY, ''http://10.0.0.5:4310'')])
     \<and> emitted (initial [(STORE_KEY, ''http://10.0.0.5:4310'')])
        (snd (onQrScanned io_up (SyntaxError ''JSON Parse error: Unexpected token'')
           (initial [(STORE_KEY, ''http://10.0.0.5:4310'')])))
       = [Alert ''QR invalido'' (err_text ''JSON Parse error: Unexpected token'')]"
    by blast
  from a b c d show ?thesis by (simp add: initial_def err_text_def)
qed

subsection \<open>The resolved handler's choice of address\<close>

lemma find_first:
  "\<forall>x\<in>set pre. \<not> P x \<Longrightarrow> P a \<Longrightarrow> find P (pre @ a # post) = Some a"
  by (induction pre) auto

lemma find_none: "\<forall>x\<in>set xs. \<not> P x \<Longrightarrow> find P xs = None"
  by (simp add: find_None_iff)

lemma on_resolved_probes:
  assumes "get_prop ''addresses'' sv = Some (JArr xs)" and "find has_dot xs = Some (JStr ip)"
    and "CHR ''.'' \<in> set ip"
    and "js_String (or_else (get_prop ''port'' sv) DEFAULT_PORT) = Some p"
  shows "\<exists>es. emitted s (snd (on_resolved w z sv s))
     = Fetch (''http://'' @ ip @ '':'' @ p @ ''/health'') # es"
proof -
  let ?url = "''http://'' @ ip @ '':'' @ p"
  obtain es where t:
    "trace (snd (connectWithBaseUrl w ?url s)) = trace s @ Fetch (?url @ ''/health'') # es"
    using connect_emits_fetch by blast
  have ne: "ip \<noteq> []" using assms(3) by auto
  obtain r s1 where c: "connectWithBaseUrl w ?url s = (r, s1)"
    by (cases "connectWithBaseUrl w ?url s")
  with t have t1: "trace s1 = trace s @ Fetch (?url @ ''/health'') # es" by simp
  show ?thesis
    using assms(1,2,4) ne c t1
    by (cases r)
      (simp_all add: on_resolved_def Let_def emitted_def zeroconf_stop_def emit_def setErr_def)
qed

lemma split_dots_no_dot: "CHR ''.'' \<notin> set s \<Longrightarrow> split_dots s = [s]"
  by (induction s) auto

lemma spec_ipv4_has_dot: "spec_ipv4 ip \<Longrightarrow> has_dot (JStr ip)"
proof (rule ccontr)
  assume v: "spec_ipv4 ip" and n: "\<not> has_dot (JStr ip)"
  from n have "split_dots ip = [ip]" by (simp add: split_dots_no_dot)
  with v show False by (simp add: spec_ipv4_def)
qed

text \<open>
  The first address is an IPv4-mapped IPv6 address, not an IPv4 address; the second
  is one. The handler takes the first, because it contains a dot. And a list whose
  only address is a link-local IPv6 address with the zone \<^verbatim>\<open>eth0.100\<close> holds no IPv4
  address, yet the handler makes a candidate of it and probes it.
\<close>

theorem resolved_takes_non_ipv4_counterexample:
  "\<not> spec_ipv4 ''::ffff:10.0.0.9'' \<and> spec_ipv4 ''10.0.0.9''
   \<and> Fetch ''http://::ffff:10.0.0.9:4310/health''
       \<in> set (emitted (initial []) (snd (on_resolved io_up 0
            (Some (JObj [(''addresses'', JArr [JStr ''::ffff:10.0.0.9'', JStr ''10.0.0.9'']),
                         (''port'', JNum True ''4310'')])) (initial []))))
   \<and> Fetch ''http://10.0.0.9:4310/health''
       \<notin> set (emitted (initial []) (snd (on_resolved io_up 0
            (Some (JObj [(''addresses'', JArr [JStr ''::ffff:10.0.0.9'', JStr ''10.0.0.9'']),
                         (''port'', JNum True ''4310'')])) (initial []))))
   \<and> \<not> spec_ipv4 ''fe80::1%eth0.100''
   \<and> Fetch ''http://fe80::1%eth0.100:4310/health''
       \<in> set (emitted (initial []) (snd (on_resolved io_up 0
            (Some (JObj [(''addresses'', JArr [JStr ''fe80::1%eth0.100''])])) (initial []))))"
  by (simp add: run_defs on_resolved_def zeroconf_stop_def or_else_def DEFAULT_PORT_def
      emitted_def spec_ipv4_def octet_def is_digit_def decimal_def)

text \<open>
  Claim C6, as amended. For a resolved service whose \<^verbatim>\<open>addresses\<close> is a list, the
  handler takes the first address that is a string containing a dot, whatever
  stands before it in the list, and probes \<^verbatim>\<open>http://<address>:<port>\<close>, the port
  being the service's or 4310, in its text. That is its whole test for an address
  that looks like IPv4: every syntactically valid IPv4 address passes it, and so
  does every other string with a dot. When no address of the list passes the test
  the handler returns at once and leaves the state as it was: no probe, no message,
  no candidate.
\<close>

theorem resolved_selects_first_dotted_address:
  "(get_prop ''addresses'' sv = Some (JArr (pre @ JStr ip # post))
      \<and> (\<forall>x\<in>set pre. \<not> has_dot x) \<and> CHR ''.'' \<in> set ip
      \<and> js_String (or_else (get_prop ''port'' sv) DEFAULT_PORT) = Some p
    \<longrightarrow> (\<exists>es. emitted s (snd (on_resolved w z sv s))
          = Fetch (''http://'' @ ip @ '':'' @ p @ ''/health'') # es))
   \<and> (spec_ipv4 ip \<longrightarrow> has_dot (JStr ip))
   \<and> (get_prop ''addresses'' sv = Some (JArr xs) \<and> (\<forall>x\<in>set xs. \<not> has_dot x)
    \<longrightarrow> on_resolved w z sv s = (Resolved (), s))"
proof -
  have a: "get_prop ''addresses'' sv = Some (JArr (pre @ JStr ip # post))
      \<and> (\<forall>x\<in>set pre. \<not> has_dot x) \<and> CHR ''.'' \<in> set ip
      \<and> js_String (or_else (get_prop ''port'' sv) DEFAULT_PORT) = Some p
    \<longrightarrow> (\<exists>es. emitted s (snd (on_resolved w z sv s))
          = Fetch (''http://'' @ ip @ '':'' @ p @ ''/health'') # es)"
  proof
    assume h: "get_prop ''addresses'' sv = Some (JArr (pre @ JStr ip # post))
      \<and> (\<forall>x\<in>set pre. \<not> has_dot x) \<and> CHR ''.'' \<in> set ip
      \<and> js_String (or_else (get_prop ''port'' sv) DEFAULT_PORT) = Some p"
    then have "find has_dot (pre @ JStr ip # post) = Some (JStr ip)"
      by (intro find_first) simp_all
    with h show "\<exists>es. emitted s (snd (on_resolved w z sv s))
          = Fetch (''http://'' @ ip @ '':'' @ p @ ''/health'') # es"
      using on_resolved_probes by blast
  qed
  have b: "spec_ipv4 ip \<longrightarrow> has_dot (JStr ip)"
    using spec_ipv4_has_dot by blast
  have c: "get_prop ''addresses'' sv = Some (JArr xs) \<and> (\<forall>x\<in>set xs. \<not> has_dot x)
    \<longrightarrow> on_resolved w z sv s = (Resolved (), s)"
    by (simp add: on_resolved_def find_none Let_def)
  from a b c show ?thesis by blast
qed

text \<open>The theorem at the sample service, whose IPv4 address comes second, and at a
  service with IPv6 addresses only.\<close>

theorem resolved_selects_first_dotted_address_witness:
  "hd (emitted (initial []) (snd (on_resolved io_up 0 advert (initial []))))
      = Fetch ''http://10.0.0.9:4310/health''
   \<and> has_dot (JStr ''10.0.0.9'')
   \<and> on_resolved io_up 0 (Some (JObj [(''addresses'', JArr [JStr ''fe80::1'', JStr ''::1''])]))
        (initial []) = (Resolved (), initial [])"
proof -
  have h1: "get_prop ''addresses'' advert
        = Some (JArr ([JStr ''fe80::1c2d:3eff:fe4f:5a6b''] @ JStr ''10.0.0.9'' # []))
      \<and> (\<forall>x\<in>set [JStr ''fe80::1c2d:3eff:fe4f:5a6b'']. \<not> has_dot x)
      \<and> CHR ''.'' \<in> set ''10.0.0.9''
      \<and> js_String (or_else (get_prop ''port'' advert) DEFAULT_PORT) = Some ''4310''"
    by (simp add: advert_def or_else_def)
  have h2: "get_prop ''addresses'' (Some (JObj [(''addresses'', JArr [JStr ''fe80::1'', JStr ''::1''])]))
        = Some (JArr [JStr ''fe80::1'', JStr ''::1''])
      \<and> (\<forall>x\<in>set [JStr ''fe80::1'', JStr ''::1'']. \<not> has_dot x)"
    by simp
  have h3: "spec_ipv4 ''10.0.0.9''"
    by (simp add: spec_ipv4_def octet_def is_digit_def decimal_def)
  from resolved_selects_first_dotted_address [of advert "[JStr ''fe80::1c2d:3eff:fe4f:5a6b'']"
      "''10.0.0.9''" "[]" "''4310''" "initial []" io_up 0] h1
  obtain es where "emitted (initial []) (snd (on_resolved io_up 0 advert (initial [])))
      = Fetch (''http://'' @ ''10.0.0.9'' @ '':'' @ ''4310'' @ ''/health'') # es"
    by blast
  then have a: "hd (emitted (initial []) (snd (on_resolved io_up 0 advert (initial []))))
      = Fetch ''http://10.0.0.9:4310/health''"
    by simp
  from resolved_selects_first_dotted_address [of _ _ "''10.0.0.9''"] h3
  have b: "has_dot (JStr ''10.0.0.9'')"
    by blast
  from resolved_selects_first_dotted_address [of
      "Some (JObj [(''addresses'', JArr [JStr ''fe80::1'', JStr ''::1''])])" _ _ _ _ "initial []" io_up 0
      "[JStr ''fe80::1'', JStr ''::1'']"] h2
  have c: "on_resolved io_up 0 (Some (JObj [(''addresses'', JArr [JStr ''fe80::1'', JStr ''::1''])]))
        (initial []) = (Resolved (), initial [])"
    by blast
  from a b c show ?thesis by simp
qed

subsection \<open>Forget, and a probe that answers after it\<close>

text \<open>
  A probe of \<^verbatim>\<open>http://10.0.0.9:4310\<close> is in flight (\<^verbatim>\<open>connectWithBaseUrl\<close> waits at
  \<^verbatim>\<open>await tryHealth\<close>) when "Olvidar" is pressed. If the handler runs to its end
  first, it empties the store and sets \<^verbatim>\<open>baseUrl\<close> to \<^verbatim>\<open>null\<close>; then the probe
  returns \<^verbatim>\<open>true\<close>, and the rest of \<^verbatim>\<open>connectWithBaseUrl\<close> runs and connects. If the
  probe returns while the handler waits at \<^verbatim>\<open>await deleteItemAsync\<close>, the url is
  written in between, and when the handler has ended the store returns it.
\<close>

theorem late_probe_after_forget_counterexample:
  "baseUrl (snd (forget io_up (connect_begin ''http://10.0.0.9:4310''
       (initial [(STORE_KEY, ''http://10.0.0.5:4310'')])))) = None
   \<and> map_of (secure (snd (forget io_up (connect_begin ''http://10.0.0.9:4310''
       (initial [(STORE_KEY, ''http://10.0.0.5:4310'')]))))) STORE_KEY = None
   \<and> baseUrl (snd (connect_resume io_up ''http://10.0.0.9:4310'' True
       (snd (forget io_up (connect_begin ''http://10.0.0.9:4310''
          (initial [(STORE_KEY, ''http://10.0.0.5:4310'')])))))) = Some ''http://10.0.0.9:4310''
   \<and> map_of (secure (forget_finish (snd (connect_store io_up ''http://10.0.0.9:4310'' True
       (snd (forget_begin io_up (connect_begin ''http://10.0.0.9:4310''
          (initial [(STORE_KEY, ''http://10.0.0.5:4310'')])))))))) STORE_KEY
       = Some ''http://10.0.0.9:4310''"
  by (simp add: run_defs forget_def forget_begin_def forget_finish_def deleteItemAsync_def)

lemma forget_begin_clears:
  "deleteItem_ok w \<Longrightarrow>
     fst (forget_begin w s) = Resolved () \<and> map_of (secure (snd (forget_begin w s))) STORE_KEY = None
     \<and> baseUrl (snd (forget_begin w s)) = baseUrl s"
  by (simp add: forget_begin_def deleteItemAsync_def emit_def delete_conv')

lemma forget_finish_idle:
  "baseUrl (forget_finish s) = None \<and> secure (forget_finish s) = secure s"
  by (simp add: forget_finish_def setStatus_def setBaseUrl_def emit_def)

lemma connect_store_writes:
  "setItem_ok w \<Longrightarrow>
     fst (connect_store w url True s) = Resolved ()
     \<and> map_of (secure (snd (connect_store w url True s))) STORE_KEY = Some url
     \<and> baseUrl (snd (connect_store w url True s)) = baseUrl s"
  by (simp add: connect_store_def setItemAsync_def emit_def Let_def update_conv')

lemma connect_finish_connects:
  "baseUrl (connect_finish url s) = Some url \<and> secure (connect_finish url s) = secure s"
  by (simp add: connect_finish_def setStatus_def setBaseUrl_def emit_def)

text \<open>
  Claim C7, as amended. The forget handler's delete, when it succeeds, empties the
  store, and the handler's last step sets \<^verbatim>\<open>baseUrl\<close> to \<^verbatim>\<open>null\<close> and leaves the store
  alone: after a forget during which no other handler ran, no endpoint is connected
  and the store returns nothing. The code keeps no generation token. A probe that
  was in flight when forget was pressed and returns \<^verbatim>\<open>true\<close> after the handler has
  ended writes its url to the store (when the write succeeds) and sets the state to
  Connected with it. One that returns \<^verbatim>\<open>true\<close> while the handler waits for the
  delete writes its url into the emptied store: when the handler has ended the
  store returns that url, and the state is Connected with it if the probe's last
  step runs after the handler's, and not connected if it runs before.
\<close>

theorem forget_clears_but_late_probe_connects:
  "(deleteItem_ok w \<longrightarrow>
      fst (forget_begin w s) = Resolved ()
      \<and> map_of (secure (snd (forget_begin w s))) STORE_KEY = None)
   \<and> baseUrl (forget_finish s) = None \<and> secure (forget_finish s) = secure s
   \<and> (deleteItem_ok w \<longrightarrow>
      forget w s = (Resolved (), forget_finish (snd (forget_begin w s)))
      \<and> baseUrl (snd (forget w s)) = None
      \<and> map_of (secure (snd (forget w s))) STORE_KEY = None)
   \<and> (setItem_ok w' \<longrightarrow>
      baseUrl (snd (connect_resume w' url True (snd (forget w (connect_begin url s))))) = Some url
      \<and> map_of (secure (snd (connect_resume w' url True (snd (forget w (connect_begin url s))))))
          STORE_KEY = Some url)
   \<and> (setItem_ok w' \<longrightarrow>
      (let s2 = snd (connect_store w' url True (snd (forget_begin w (connect_begin url s)))) in
       baseUrl (forget_finish s2) = None
       \<and> map_of (secure (forget_finish s2)) STORE_KEY = Some url
       \<and> baseUrl (connect_finish url (forget_finish s2)) = Some url
       \<and> map_of (secure (connect_finish url (forget_finish s2))) STORE_KEY = Some url
       \<and> baseUrl (forget_finish (connect_finish url s2)) = None
       \<and> map_of (secure (forget_finish (connect_finish url s2))) STORE_KEY = Some url))"
proof -
  have cleared: "deleteItem_ok w \<longrightarrow>
      fst (forget_begin w s) = Resolved ()
      \<and> map_of (secure (snd (forget_begin w s))) STORE_KEY = None"
    by (simp add: forget_begin_clears)
  have idle: "baseUrl (forget_finish s) = None \<and> secure (forget_finish s) = secure s"
    by (rule forget_finish_idle)
  have alone: "deleteItem_ok w \<longrightarrow>
      forget w s = (Resolved (), forget_finish (snd (forget_begin w s)))
      \<and> baseUrl (snd (forget w s)) = None
      \<and> map_of (secure (snd (forget w s))) STORE_KEY = None"
  proof
    assume d: "deleteItem_ok w"
    then have e: "forget w s = (Resolved (), forget_finish (snd (forget_begin w s)))"
      by (simp add: forget_def forget_begin_def deleteItemAsync_def)
    with d show "forget w s = (Resolved (), forget_finish (snd (forget_begin w s)))
      \<and> baseUrl (snd (forget w s)) = None
      \<and> map_of (secure (snd (forget w s))) STORE_KEY = None"
      by (simp add: forget_finish_idle forget_begin_clears)
  qed
  have late: "setItem_ok w' \<longrightarrow>
      baseUrl (snd (connect_resume w' url True (snd (forget w (connect_begin url s))))) = Some url
      \<and> map_of (secure (snd (connect_resume w' url True (snd (forget w (connect_begin url s))))))
          STORE_KEY = Some url"
    by (simp add: connect_resume_def connect_store_def connect_finish_def setItemAsync_def emit_def
        setStatus_def setBaseUrl_def Let_def update_conv')
  have gap: "setItem_ok w' \<longrightarrow>
      (let s2 = snd (connect_store w' url True (snd (forget_begin w (connect_begin url s)))) in
       baseUrl (forget_finish s2) = None
       \<and> map_of (secure (forget_finish s2)) STORE_KEY = Some url
       \<and> baseUrl (connect_finish url (forget_finish s2)) = Some url
       \<and> map_of (secure (connect_finish url (forget_finish s2))) STORE_KEY = Some url
       \<and> baseUrl (forget_finish (connect_finish url s2)) = None
       \<and> map_of (secure (forget_finish (connect_finish url s2))) STORE_KEY = Some url)"
    by (simp add: Let_def forget_finish_idle connect_finish_connects connect_store_writes)
  from cleared idle alone late gap show ?thesis by blast
qed

text \<open>The theorem at a store that holds an older endpoint, with a working store and a
  probe of another endpoint in flight.\<close>

theorem forget_clears_but_late_probe_connects_witness:
  "baseUrl (snd (forget io_up (initial [(STORE_KEY, ''http://10.0.0.5:4310'')]))) = None
   \<and> map_of (secure (snd (forget io_up (initial [(STORE_KEY, ''http://10.0.0.5:4310'')])))) STORE_KEY
       = None
   \<and> baseUrl (snd (connect_resume io_up ''http://10.0.0.9:4310'' True
       (snd (forget io_up (connect_begin ''http://10.0.0.9:4310''
          (initial [(STORE_KEY, ''http://10.0.0.5:4310'')])))))) = Some ''http://10.0.0.9:4310''
   \<and> map_of (secure (forget_finish (snd (connect_store io_up ''http://10.0.0.9:4310'' True
       (snd (forget_begin io_up (connect_begin ''http://10.0.0.9:4310''
          (initial [(STORE_KEY, ''http://10.0.0.5:4310'')])))))))) STORE_KEY
       = Some ''http://10.0.0.9:4310''"
proof -
  have h: "deleteItem_ok io_up" "setItem_ok io_up" by (simp_all add: io_up_def)
  from forget_clears_but_late_probe_connects [of io_up
      "initial [(STORE_KEY, ''http://10.0.0.5:4310'')]" io_up "''http://10.0.0.9:4310''"] h
  show ?thesis unfolding Let_def by blast
qed

subsection \<open>The six-second timer\<close>

text \<open>The timer's callback stops no Zeroconf instance and touches neither the
  endpoint nor the store.\<close>

lemma fire_timer_keeps_scanning:
  "zeroconfs (fire_timer s) = zeroconfs s \<and> baseUrl (fire_timer s) = baseUrl s
   \<and> secure (fire_timer s) = secure s \<and> trace (fire_timer s) = trace s"
  by (simp add: fire_timer_def on_timeout_def setStatus_def split: list.splits)

text \<open>
  Claim C8, where the code departs from it. The app starts over an empty store, so
  the effect starts discovery; the timer's callback closes over that render's
  \<^verbatim>\<open>baseUrl\<close>, which is \<^verbatim>\<open>null\<close>. The server is resolved and probed before six
  seconds have passed: the state is Connected, the status \<^verbatim>\<open>Conectado\<close>. When the
  timer fires its test \<^verbatim>\<open>!baseUrl\<close> still sees \<^verbatim>\<open>null\<close>, and the status becomes the
  hint to use the QR code while the endpoint stays connected.
\<close>

theorem timeout_hint_shown_while_connected:
  "baseUrl (snd (on_resolved io_up 0 advert (snd (startup io_up (initial [])))))
      = Some ''http://10.0.0.9:4310''
   \<and> status (snd (on_resolved io_up 0 advert (snd (startup io_up (initial []))))) = ''Conectado''
   \<and> baseUrl (fire_timer (snd (on_resolved io_up 0 advert (snd (startup io_up (initial []))))))
      = Some ''http://10.0.0.9:4310''
   \<and> status (fire_timer (snd (on_resolved io_up 0 advert (snd (startup io_up (initial []))))))
      = ''No se encontro por mDNS. Usa QR (fallback).''"
  by (simp add: run_defs on_resolved_def advert_def fire_timer_def on_timeout_def zeroconf_stop_def
      or_else_def DEFAULT_PORT_def)

subsection \<open>A store write that fails\<close>

text \<open>
  The probe succeeds and \<^verbatim>\<open>SecureStore.setItemAsync\<close> rejects: \<^verbatim>\<open>connectWithBaseUrl\<close>
  throws the store's error and no endpoint is connected.
\<close>

theorem connect_store_write_fails_counterexample:
  "tryHealth (fetch_result (io_up\<lparr>setItem_ok := False\<rparr>)) = Resolved True
   \<and> fst (connectWithBaseUrl (io_up\<lparr>setItem_ok := False\<rparr>) ''http://192.168.1.50:4310'' (initial []))
       = Rejected ''SecureStore failure''
   \<and> baseUrl (snd (connectWithBaseUrl (io_up\<lparr>setItem_ok := False\<rparr>) ''http://192.168.1.50:4310''
        (initial []))) = None"
  by (simp add: run_defs)

text \<open>
  Claim C9, as amended. When the probe of an endpoint succeeds and the store write
  that follows fails, \<^verbatim>\<open>connectWithBaseUrl\<close> throws the store's error before it
  sets the state: the connected endpoint and the store stay as they were, the
  status stays \<^verbatim>\<open>Probando conexion...\<close>, and \<^verbatim>\<open>setBaseUrl\<close> is not called.
\<close>

theorem store_write_failure_prevents_connected:
  assumes "tryHealth (fetch_result w) = Resolved True" and "\<not> setItem_ok w"
  shows "fst (connectWithBaseUrl w url s) = Rejected (store_error w)
    \<and> baseUrl (snd (connectWithBaseUrl w url s)) = baseUrl s
    \<and> secure (snd (connectWithBaseUrl w url s)) = secure s
    \<and> status (snd (connectWithBaseUrl w url s)) = ''Probando conexion...''
    \<and> (\<forall>v. SetBaseUrl v \<notin> set (emitted s (snd (connectWithBaseUrl w url s))))"
  unfolding connect_store_fails [OF assms] by (simp add: emitted_def)

theorem store_write_failure_prevents_connected_witness:
  "fst (connectWithBaseUrl (io_up\<lparr>setItem_ok := False\<rparr>) ''http://10.0.0.9:4310'' (initial []))
       = Rejected ''SecureStore failure''
   \<and> baseUrl (snd (connectWithBaseUrl (io_up\<lparr>setItem_ok := False\<rparr>) ''http://10.0.0.9:4310''
        (initial []))) = None
   \<and> status (snd (connectWithBaseUrl (io_up\<lparr>setItem_ok := False\<rparr>) ''http://10.0.0.9:4310''
        (initial []))) = ''Probando conexion...''"
proof -
  have h: "tryHealth (fetch_result (io_up\<lparr>setItem_ok := False\<rparr>)) = Resolved True"
    "\<not> setItem_ok (io_up\<lparr>setItem_ok := False\<rparr>)"
    by (simp_all add: io_up_def health_reply_def)
  from store_write_failure_prevents_connected [OF h, of "''http://10.0.0.9:4310''" "initial []"]
  show ?thesis by (simp add: io_up_def initial_def)
qed

end
